theory Spec2Isabelle
  imports Complex_Main "HOL-Library.Word" "HOL-Library.Sublist"
begin

section \<open>JavaScript strings\<close>

text \<open>
  A JavaScript string is a sequence of UTF-16 code units. \<open>length\<close>, \<open>includes\<close>,
  \<open>split('')\<close> and the regular expressions of the sources (none has the \<open>u\<close> flag) all work
  on code units, so a string is a list of 16-bit words. \<open>js\<close> embeds an ASCII literal and
  \<open>ch\<close> a single ASCII character.
\<close>

type_synonym code_unit = "16 word"
type_synonym jsstring = "code_unit list"

definition ch :: "char \<Rightarrow> code_unit" where
  "ch c = of_nat (of_char c)"

definition js :: "string \<Rightarrow> jsstring" where
  "js s = map ch s"

text \<open>
  \<open>String.prototype.trim\<close> removes WhiteSpace and LineTerminator code points from both ends:
  TAB, LF, VT, FF, CR, SPACE, NBSP, U+1680, U+2000..U+200A, U+2028, U+2029, U+202F, U+205F,
  U+3000 and U+FEFF.
\<close>

definition is_whitespace :: "code_unit \<Rightarrow> bool" where
  "is_whitespace c \<longleftrightarrow>
     c = 0x09 \<or> c = 0x0A \<or> c = 0x0B \<or> c = 0x0C \<or> c = 0x0D \<or> c = 0x20 \<or> c = 0xA0 \<or>
     c = 0x1680 \<or> (0x2000 \<le> c \<and> c \<le> 0x200A) \<or> c = 0x2028 \<or> c = 0x2029 \<or>
     c = 0x202F \<or> c = 0x205F \<or> c = 0x3000 \<or> c = 0xFEFF"

definition trim :: "jsstring \<Rightarrow> jsstring" where
  "trim s = rev (dropWhile is_whitespace (rev (dropWhile is_whitespace s)))"

text \<open>\<open>s.includes(sub)\<close>: \<open>sub\<close> occurs in \<open>s\<close> as a contiguous run of code units.\<close>

definition str_includes :: "jsstring \<Rightarrow> jsstring \<Rightarrow> bool" where
  "str_includes s sub = sublist sub s"

text \<open>\<open>(s.match(/c/g) || []).length\<close> for a single-character pattern: the number of
  occurrences of \<open>c\<close>.\<close>

definition count_matches :: "code_unit \<Rightarrow> jsstring \<Rightarrow> nat" where
  "count_matches c s = length (filter (\<lambda>x. x = c) s)"

text \<open>
  The character class \<open>[A-Za-z0-9@+\-\[\]()=#:/.\\%]\<close> shared by \<open>validateSMILES\<close> and
  \<open>isSMILESLike\<close>, and the anchored test \<open>/^[...]+$/.test(s)\<close>: \<open>s\<close> is not empty and every
  code unit is in the class.
\<close>

definition is_smiles_char :: "code_unit \<Rightarrow> bool" where
  "is_smiles_char c \<longleftrightarrow>
     (ch CHR ''A'' \<le> c \<and> c \<le> ch CHR ''Z'') \<or> (ch CHR ''a'' \<le> c \<and> c \<le> ch CHR ''z'') \<or>
     (ch CHR ''0'' \<le> c \<and> c \<le> ch CHR ''9'') \<or>
     c = ch CHR ''@'' \<or> c = ch CHR ''+'' \<or> c = ch CHR ''-'' \<or> c = ch CHR ''['' \<or>
     c = ch CHR '']'' \<or> c = ch CHR ''('' \<or> c = ch CHR '')'' \<or> c = ch CHR ''='' \<or>
     c = ch CHR ''#'' \<or> c = ch CHR '':'' \<or> c = ch CHR ''/'' \<or> c = ch CHR ''.'' \<or>
     c = ch (CHR 0x5C) \<or> c = ch CHR ''%''"

definition validChars_test :: "jsstring \<Rightarrow> bool" where
  "validChars_test s \<longleftrightarrow> s \<noteq> [] \<and> list_all is_smiles_char s"

section \<open>The SMILES validator (SMILESValidator component)\<close>

text \<open>The class \<open>[CNOSPFClBrI]\<close> of \<open>hasValidAtoms\<close>: a set of single characters.\<close>

definition is_atom_char :: "code_unit \<Rightarrow> bool" where
  "is_atom_char c \<longleftrightarrow>
     c = ch CHR ''C'' \<or> c = ch CHR ''N'' \<or> c = ch CHR ''O'' \<or> c = ch CHR ''S'' \<or>
     c = ch CHR ''P'' \<or> c = ch CHR ''F'' \<or> c = ch CHR ''l'' \<or> c = ch CHR ''B'' \<or>
     c = ch CHR ''r'' \<or> c = ch CHR ''I''"

record diagnostics =
  errors :: "jsstring list"
  warnings :: "jsstring list"
  suggestions :: "jsstring list"

record validation = diagnostics +
  isValid :: bool

definition push_error :: "jsstring \<Rightarrow> jsstring \<Rightarrow> diagnostics \<Rightarrow> diagnostics" where
  "push_error e s d = d\<lparr>errors := errors d @ [e], suggestions := suggestions d @ [s]\<rparr>"

definition push_warning :: "jsstring \<Rightarrow> diagnostics \<Rightarrow> diagnostics" where
  "push_warning w d = d\<lparr>warnings := warnings d @ [w]\<rparr>"

definition check_parens :: "jsstring \<Rightarrow> diagnostics \<Rightarrow> diagnostics" where
  "check_parens trimmed d =
     (let openParens = count_matches (ch CHR ''('') trimmed;
          closeParens = count_matches (ch CHR '')'') trimmed
      in if openParens \<noteq> closeParens
         then push_error (js ''Unbalanced parentheses'')
                (js ''Check that all opening parentheses have matching closing ones'') d
         else d)"

definition check_brackets :: "jsstring \<Rightarrow> diagnostics \<Rightarrow> diagnostics" where
  "check_brackets trimmed d =
     (let openBrackets = count_matches (ch CHR ''['') trimmed;
          closeBrackets = count_matches (ch CHR '']'') trimmed
      in if openBrackets \<noteq> closeBrackets
         then push_error (js ''Unbalanced square brackets'')
                (js ''Check that all opening brackets have matching closing ones'') d
         else d)"

definition check_atoms :: "jsstring \<Rightarrow> diagnostics \<Rightarrow> diagnostics" where
  "check_atoms trimmed d =
     (let hasValidAtoms = list_ex is_atom_char trimmed
      in if \<not> hasValidAtoms
         then push_error (js ''No recognizable atom symbols found'')
                (js ''Include common atoms like C, N, O, S, P, F, Cl, Br, I'') d
         else d)"

definition check_chars :: "jsstring \<Rightarrow> diagnostics \<Rightarrow> diagnostics" where
  "check_chars trimmed d =
     (if \<not> validChars_test trimmed
      then push_error (js ''Contains invalid characters'')
             (js ''Use only valid SMILES characters: letters, numbers, @, +, -, [], (), =, #, :, /, ''
                @ [ch (CHR 0x5C)] @ js '', %'') d
      else d)"

definition check_size :: "jsstring \<Rightarrow> diagnostics \<Rightarrow> diagnostics" where
  "check_size trimmed d =
     (let d1 = (if length trimmed > 200
                then push_warning (js ''Very long SMILES string - may be complex to visualize'') d
                else d)
      in if count_matches (ch CHR ''C'') trimmed > 50
         then push_warning (js ''Large molecule - 3D rendering may be slow'') d1
         else d1)"

definition check_mistakes :: "jsstring \<Rightarrow> diagnostics \<Rightarrow> diagnostics" where
  "check_mistakes trimmed d =
     (let d1 = (if str_includes trimmed (js ''..'')
                then push_error (js ''Double dots are not valid in SMILES'')
                       (js ''Remove consecutive dots'') d
                else d)
      in if str_includes trimmed (js ''--'')
         then push_error (js ''Double dashes are not valid in SMILES'')
                (js ''Use single dash for bonds'') d1
         else d1)"

text \<open>
  \<open>validateSMILES\<close>: the early return on an empty or blank string, then the checks in the
  order of the source, each appending to the three arrays; \<open>isValid\<close> is computed last from
  the length of \<open>errors\<close>.
\<close>

definition validateSMILES :: "jsstring \<Rightarrow> validation" where
  "validateSMILES smilesString =
     (if smilesString = [] \<or> length (trim smilesString) = 0
      then \<lparr>errors = [js ''SMILES string is empty''], warnings = [], suggestions = [],
            isValid = False\<rparr>
      else
        let trimmed = trim smilesString;
            d = check_mistakes trimmed (check_size trimmed (check_chars trimmed
                  (check_atoms trimmed (check_brackets trimmed (check_parens trimmed
                     \<lparr>errors = [], warnings = [], suggestions = []\<rparr>)))))
        in \<lparr>errors = errors d, warnings = warnings d, suggestions = suggestions d,
             isValid = (length (errors d) = 0)\<rparr>)"

section \<open>The SMILES heuristic of the input form (CompoundInput component)\<close>

text \<open>
  \<open>isSMILESLike\<close>: the pattern is tested on \<open>text.trim()\<close>, the other three conjuncts on
  \<open>text\<close> itself.
\<close>

definition isSMILESLike :: "jsstring \<Rightarrow> bool" where
  "isSMILESLike text \<longleftrightarrow>
     validChars_test (trim text) \<and> str_includes text (js ''C'') \<and> length text > 3 \<and>
     \<not> str_includes text (js '' '')"

section \<open>Formula formatting (constants module and CompoundInfo component)\<close>

text \<open>
  \<open>formula.replace(/(\d+)/g, callback)\<close>: the string is scanned from the left, every maximal
  run of the digits \<open>0\<close> to \<open>9\<close> is replaced by the callback's result, every other code unit
  is copied. The callback splits the run into one-character strings, looks each up in
  \<open>subscriptMap\<close> (falling back to the character when the lookup is undefined or empty) and
  joins the results. The two copies of the function in the sources differ only in where
  \<open>subscriptMap\<close> is declared.
\<close>

definition is_digit :: "code_unit \<Rightarrow> bool" where
  "is_digit c \<longleftrightarrow> ch CHR ''0'' \<le> c \<and> c \<le> ch CHR ''9''"

definition subscriptMap :: "jsstring \<rightharpoonup> jsstring" where
  "subscriptMap = map_of
     [(js ''0'', [0x2080]), (js ''1'', [0x2081]), (js ''2'', [0x2082]), (js ''3'', [0x2083]),
      (js ''4'', [0x2084]), (js ''5'', [0x2085]), (js ''6'', [0x2086]), (js ''7'', [0x2087]),
      (js ''8'', [0x2088]), (js ''9'', [0x2089])]"

text \<open>\<open>a || b\<close> where \<open>a\<close> is a string or undefined: \<open>b\<close> when \<open>a\<close> is undefined or empty.\<close>

definition js_or :: "jsstring option \<Rightarrow> jsstring \<Rightarrow> jsstring" where
  "js_or a b = (case a of None \<Rightarrow> b | Some s \<Rightarrow> if s = [] then b else s)"

definition split_chars :: "jsstring \<Rightarrow> jsstring list" where
  "split_chars s = map (\<lambda>c. [c]) s"

definition subscript_callback :: "jsstring \<Rightarrow> jsstring" where
  "subscript_callback match =
     concat (map (\<lambda>digit. js_or (subscriptMap digit) digit) (split_chars match))"

function replace_digit_runs :: "(jsstring \<Rightarrow> jsstring) \<Rightarrow> jsstring \<Rightarrow> jsstring" where
  "replace_digit_runs f [] = []"
| "replace_digit_runs f (c # cs) =
     (if is_digit c
      then f (c # takeWhile is_digit cs) @ replace_digit_runs f (dropWhile is_digit cs)
      else c # replace_digit_runs f cs)"
  by pat_completeness auto
termination
  by (relation "measure (\<lambda>(f, s). length s)")
    (auto simp: length_dropWhile_le less_Suc_eq_le)

definition formatMolecularFormula :: "jsstring \<Rightarrow> jsstring" where
  "formatMolecularFormula formula = replace_digit_runs subscript_callback formula"

text \<open>The subscript that corresponds to each ASCII digit; any other code unit stays.\<close>

definition subscript_of :: "code_unit \<Rightarrow> code_unit" where
  "subscript_of c =
     (if c = ch CHR ''0'' then 0x2080 else if c = ch CHR ''1'' then 0x2081
      else if c = ch CHR ''2'' then 0x2082 else if c = ch CHR ''3'' then 0x2083
      else if c = ch CHR ''4'' then 0x2084 else if c = ch CHR ''5'' then 0x2085
      else if c = ch CHR ''6'' then 0x2086 else if c = ch CHR ''7'' then 0x2087
      else if c = ch CHR ''8'' then 0x2088 else if c = ch CHR ''9'' then 0x2089
      else c)"

section \<open>The result record (constants module)\<close>

text \<open>
  The interfaces of the constants module. Every field is a \<open>number\<close> in the source; the
  weights, logP and the polar surface area are reals, the counts are naturals (specification,
  section 3). Optional fields are options.
\<close>

record MolecularProperties =
  molecularWeight :: real
  logP :: real
  hbondDonors :: nat
  hbondAcceptors :: nat
  rotatablebonds :: nat
  polarSurfaceArea :: real
  heavyAtomCount :: nat
  ringCount :: nat
  aromaticRings :: nat
  heteroAtoms :: nat

record DrugLikenessAssessment =
  lipinskiViolations :: nat
  veberViolations :: nat
  leadLikeness :: bool
  drugLikeness :: bool

record ADMETPrediction =
  bloodBrainBarrier :: jsstring
  humanIntestinalAbsorption :: jsstring
  cyp450Inhibition :: "jsstring list"
  toxicity :: jsstring

text \<open>\<open>drugLikeness\<close> names both the assessment inside \<open>CompoundAnalysis\<close> and the flag
  inside the assessment; the flag is written \<open>DrugLikenessAssessment.drugLikeness\<close>.\<close>

record CompoundAnalysis =
  smiles :: jsstring
  name :: jsstring
  formula :: jsstring
  iupacName :: "jsstring option"
  functionalGroups :: "jsstring list option"
  properties :: MolecularProperties
  drugLikeness :: DrugLikenessAssessment
  admet :: ADMETPrediction
  structure3D :: jsstring

record AnalysisResponse =
  success :: bool
  data :: "CompoundAnalysis option"
  error :: "jsstring option"

section \<open>The API client (services/api)\<close>

text \<open>
  The body of an HTTP reply, as axios hands it over in \<open>response.data\<close>, is not checked
  against any type: it is whatever JSON the server sent (a string when the body is no JSON).
  An object is its list of members in the order of the text; of a repeated key the last
  member counts, as in \<open>JSON.parse\<close>.
\<close>

datatype json =
  JNull | JBool bool | JNumber real | JString jsstring
  | JArray "json list" | JObject "(jsstring \<times> json) list"

text \<open>\<open>v?.key\<close>: undefined when \<open>v\<close> is null, or is no object, or has no such member.\<close>

definition optional_member :: "json \<Rightarrow> jsstring \<Rightarrow> json option" where
  "optional_member v key = (case v of JObject members \<Rightarrow> map_of (rev members) key | _ \<Rightarrow> None)"

text \<open>Truthiness: null, false, 0 and the empty string are falsy, everything else is truthy.\<close>

definition truthy :: "json \<Rightarrow> bool" where
  "truthy v =
     (case v of JNull \<Rightarrow> False | JBool b \<Rightarrow> b | JNumber n \<Rightarrow> n \<noteq> 0 | JString s \<Rightarrow> s \<noteq> []
      | JArray elements \<Rightarrow> True | JObject members \<Rightarrow> True)"

text \<open>\<open>a || b\<close> where \<open>a\<close> may be undefined: \<open>a\<close> when it is truthy, else \<open>b\<close>.\<close>

definition value_or :: "json option \<Rightarrow> json \<Rightarrow> json" where
  "value_or a b = (case a of None \<Rightarrow> b | Some v \<Rightarrow> if truthy v then v else b)"


text \<open>
  What \<open>await axios.post(...)\<close> and \<open>await axios.get(...)\<close> can do: resolve to a response
  or throw. A thrown value is an axios error, with its optional \<open>code\<close> and optional
  \<open>response\<close>, or anything else. Of a response the client reads \<open>status\<close> and \<open>data\<close>.
\<close>

datatype 'd axios_response = Response (response_status: nat) (response_data: 'd)

datatype thrown = isAxiosError: AxiosError (code: "jsstring option")
    (response: "json axios_response option")
  | OtherError

text \<open>\<open>try { body } catch (e) { handler }\<close> on results: \<open>Inl\<close> is a thrown value.\<close>

definition try_catch :: "thrown + 'a \<Rightarrow> (thrown \<Rightarrow> thrown + 'a) \<Rightarrow> thrown + 'a" where
  "try_catch body handler = (case body of Inl e \<Rightarrow> handler e | Inr v \<Rightarrow> Inr v)"

text \<open>The failure response as a typed record, for the engine below.\<close>

definition failure :: "jsstring \<Rightarrow> AnalysisResponse" where
  "failure msg = \<lparr>success = False, data = None, error = Some msg\<rparr>"

text \<open>The object literal \<open>{success: false, error: v}\<close> of the catch block.\<close>

definition failure_object :: "json \<Rightarrow> json" where
  "failure_object v = JObject [(js ''success'', JBool False), (js ''error'', v)]"

text \<open>
  The catch block of \<open>analyzeCompound\<close>; \<open>console.error\<close> only logs. \<open>e.response?.status\<close>
  is \<open>map_option response_status (response e)\<close>; in the branch that reads
  \<open>e.response.data?.error\<close> the response is present. That branch returns the member of the
  body as it is when it is truthy, whatever its type.
\<close>

definition analyze_catch :: "thrown \<Rightarrow> thrown + json" where
  "analyze_catch e =
     (if isAxiosError e
      then
        if code e = Some (js ''ECONNREFUSED'')
        then Inr (failure_object (JString
               (js ''Backend server is not running. Please start the Python backend.'')))
        else if map_option response_status (response e) = Some 500
        then Inr (failure_object
               (value_or
                  (case response e of None \<Rightarrow> None
                   | Some r \<Rightarrow> optional_member (response_data r) (js ''error''))
                  (JString (js ''Server error during analysis''))))
        else if code e = Some (js ''ECONNABORTED'')
        then Inr (failure_object (JString
               (js ''Analysis timeout - the compound may be too complex to process quickly'')))
        else Inr (failure_object (JString (js ''Failed to analyze compound. Please try again.'')))
      else Inr (failure_object (JString (js ''Failed to analyze compound. Please try again.''))))"

text \<open>
  \<open>analyzeCompound\<close>, given the behaviour of \<open>axios.post\<close> on the request body
  \<open>{query: query.trim()}\<close>. On a resolved request it returns \<open>response.data\<close> as received.
\<close>

definition analyzeCompound ::
  "(jsstring \<Rightarrow> thrown + json axios_response) \<Rightarrow> jsstring \<Rightarrow> thrown + json" where
  "analyzeCompound post query =
     try_catch
       (case post (trim query) of Inl e \<Rightarrow> Inl e | Inr resp \<Rightarrow> Inr (response_data resp))
       analyze_catch"

text \<open>
  Three backends for running the client on concrete replies: one that answers every request
  with status 500 and a given body, one that answers with status 200 and a given body, and
  one that refuses the connection.
\<close>

definition replies_500_with :: "json \<Rightarrow> jsstring \<Rightarrow> thrown + json axios_response" where
  "replies_500_with body request =
     Inl (AxiosError (Some (js ''ERR_BAD_RESPONSE'')) (Some (Response 500 body)))"



text \<open>\<open>healthCheck\<close>, given the outcome of \<open>axios.get\<close> on the health endpoint.\<close>

definition healthCheck :: "thrown + 'd axios_response \<Rightarrow> thrown + bool" where
  "healthCheck get =
     try_catch
       (case get of Inl e \<Rightarrow> Inl e | Inr resp \<Rightarrow> Inr (response_status resp = 200))
       (\<lambda>e. Inr False)"

section \<open>The application shell (App) and the viewer (MoleculeViewer)\<close>

text \<open>
  \<open>handleAnalyze\<close> after the API call: the analysis that is shown and the error that is
  shown, for the response \<open>resp\<close> of the API call. An object is truthy, so
  \<open>response.data\<close> is truthy when it is present.
\<close>

record app_state =
  analysis :: "CompoundAnalysis option"
  shown_error :: "jsstring option"

definition handleAnalyze :: "AnalysisResponse \<Rightarrow> app_state" where
  "handleAnalyze resp =
     (if success resp \<and> data resp \<noteq> None
      then \<lparr>analysis = data resp, shown_error = None\<rparr>
      else \<lparr>analysis = None, shown_error = Some (js_or (error resp) (js ''Analysis failed''))\<rparr>)"

text \<open>The viewer renders its placeholder (No Structure to Display) when \<open>!molBlock\<close>.\<close>

definition shows_placeholder :: "jsstring \<Rightarrow> bool" where
  "shows_placeholder molBlock \<longleftrightarrow> molBlock = []"

section \<open>The analysis engine (backend)\<close>

text \<open>
  The sources hold the client only; of the backend they hold the dependency list. The engine
  is therefore written from the specification, each definition saying which section it
  follows. The steps the specification leaves open (graph construction, descriptor tables,
  group patterns, naming, the embedding itself) are parameters.
\<close>

text \<open>
  Modelled from the spec: the error taxonomy of section 7, raised by backend code absent from
  the sources; a syntax error carries which of the structural checks of section 4.2 failed.
\<close>

datatype syntax_problem =
  UnbalancedParentheses | UnbalancedBrackets | InvalidCharacters | UnpairedRingClosure

datatype engine_error =
  UnknownCompoundError | SyntaxError syntax_problem | ValenceError
  | ConformerGenerationError | InternalError

text \<open>
  Modelled from the spec: the structural validation of the Molecular Graph Parser, which is
  backend code absent from the sources. Section 4.2, steps 1 and 2: unequal counts of the
  round or of the square brackets are a syntax error, then any character outside the
  alphabet is one.
\<close>

definition structural_check :: "jsstring \<Rightarrow> engine_error + unit" where
  "structural_check s =
     (if count_matches (ch CHR ''('') s \<noteq> count_matches (ch CHR '')'') s
      then Inl (SyntaxError UnbalancedParentheses)
      else if count_matches (ch CHR ''['') s \<noteq> count_matches (ch CHR '']'') s
      then Inl (SyntaxError UnbalancedBrackets)
      else if \<not> list_all is_smiles_char s
      then Inl (SyntaxError InvalidCharacters)
      else Inr ())"

text \<open>
  Modelled from the spec: the human-readable message of a failure response (sections 6 and
  7); the backend's wording is absent from the sources, a syntax error names its problem.
\<close>

fun error_message :: "engine_error \<Rightarrow> jsstring" where
  "error_message UnknownCompoundError = js ''Unknown compound''"
| "error_message (SyntaxError UnbalancedParentheses) = js ''Unbalanced parentheses''"
| "error_message (SyntaxError UnbalancedBrackets) = js ''Unbalanced square brackets''"
| "error_message (SyntaxError InvalidCharacters) = js ''Contains invalid characters''"
| "error_message (SyntaxError UnpairedRingClosure) = js ''Unpaired ring closure''"
| "error_message ValenceError = js ''Invalid valence''"
| "error_message ConformerGenerationError = js ''Conformer generation failed''"
| "error_message InternalError = js ''Internal error''"

text \<open>
  Modelled from the spec: the Rule Evaluator, backend code absent from the sources.
  Section 4.4: one Lipinski violation for each of MW > 500, logP > 5, donors > 5,
  acceptors > 10; one Veber violation for each of rotatable bonds > 10, polar surface
  area > 140; lead-likeness when MW \<le> 450, -1 \<le> logP \<le> 4.5 and rotatable bonds \<le> 7;
  drug-likeness when the Lipinski count is at most 1.
\<close>

definition lipinski_count :: "MolecularProperties \<Rightarrow> nat" where
  "lipinski_count p =
     (if molecularWeight p > 500 then 1 else 0) + (if logP p > 5 then 1 else 0) +
     (if hbondDonors p > 5 then 1 else 0) + (if hbondAcceptors p > 10 then 1 else 0)"

text \<open>Modelled from the spec: the Veber count of the absent Rule Evaluator, section 4.4.\<close>

definition veber_count :: "MolecularProperties \<Rightarrow> nat" where
  "veber_count p =
     (if rotatablebonds p > 10 then 1 else 0) + (if polarSurfaceArea p > 140 then 1 else 0)"

text \<open>
  Modelled from the spec: the assessment record that the absent Rule Evaluator returns,
  section 4.4, with the fields of \<open>CompoundAnalysis.drugLikeness\<close>.
\<close>

definition evaluate_rules :: "MolecularProperties \<Rightarrow> DrugLikenessAssessment" where
  "evaluate_rules p =
     \<lparr>lipinskiViolations = lipinski_count p,
      veberViolations = veber_count p,
      leadLikeness = (molecularWeight p \<le> 450 \<and> -1 \<le> logP p \<and> logP p \<le> 4.5 \<and>
                      rotatablebonds p \<le> 7),
      DrugLikenessAssessment.drugLikeness = (lipinski_count p \<le> 1)\<rparr>"

text \<open>
  Modelled from the spec: the blood-brain-barrier rule of the ADMET Heuristic Predictor,
  backend code absent from the sources. Section 4.5: likely when MW < 450, polar surface
  area < 90 and -0.5 \<le> logP \<le> 4.5, unlikely otherwise. Of the other categories the section
  fixes the intestinal-absorption rule; the CYP450 pattern list and the toxicity label are
  left to the implementation and are parameters below.
\<close>

definition blood_brain_barrier :: "MolecularProperties \<Rightarrow> jsstring" where
  "blood_brain_barrier p =
     (if molecularWeight p < 450 \<and> polarSurfaceArea p < 90 \<and> -0.5 \<le> logP p \<and> logP p \<le> 4.5
      then js ''Likely'' else js ''Unlikely'')"

text \<open>
  Modelled from the spec: the intestinal-absorption rule of the absent ADMET predictor,
  section 4.5: high when the polar surface area is below 140 and there are at most 10
  rotatable bonds.
\<close>

definition intestinal_absorption :: "MolecularProperties \<Rightarrow> jsstring" where
  "intestinal_absorption p =
     (if polarSurfaceArea p < 140 \<and> rotatablebonds p \<le> 10 then js ''High'' else js ''Low'')"

text \<open>
  Modelled from the spec: the prediction record of the absent ADMET predictor, section 4.5,
  with the fields of \<open>CompoundAnalysis.admet\<close>.
\<close>

definition predict_admet ::
  "(jsstring list \<Rightarrow> jsstring list) \<Rightarrow> (MolecularProperties \<Rightarrow> jsstring list \<Rightarrow> jsstring) \<Rightarrow>
     MolecularProperties \<Rightarrow> jsstring list \<Rightarrow> ADMETPrediction" where
  "predict_admet cyp450_rules toxicity_rule p groups =
     \<lparr>bloodBrainBarrier = blood_brain_barrier p,
      humanIntestinalAbsorption = intestinal_absorption p,
      cyp450Inhibition = cyp450_rules groups,
      toxicity = toxicity_rule p groups\<rparr>"

text \<open>
  Modelled from the spec: the retry policy of the Conformer Generator, backend code absent
  from the sources. Section 4.6: one embedding attempt, one retry from a different seed,
  then \<open>ConformerGenerationError\<close>. \<open>attempt k m\<close> is attempt number \<open>k\<close> on the molecule
  \<open>m\<close>: the structure block, or nothing when the minimisation does not converge.
\<close>

definition generate_conformer ::
  "(nat \<Rightarrow> 'm \<Rightarrow> jsstring option) \<Rightarrow> 'm \<Rightarrow> engine_error + jsstring" where
  "generate_conformer attempt m =
     (case attempt 0 m of
        Some block \<Rightarrow> Inr block
      | None \<Rightarrow> (case attempt 1 m of
                   Some block \<Rightarrow> Inr block
                 | None \<Rightarrow> Inl ConformerGenerationError))"

text \<open>
  Modelled from the spec: the steps of the absent backend pipeline that the specification
  names without fixing them (sections 4.2, steps 3 to 6, 4.3, 4.6 and 4.7), as parameters.
\<close>

record 'm engine_parts =
  build_graph :: "jsstring \<Rightarrow> engine_error + 'm"
  canonical_smiles :: "'m \<Rightarrow> jsstring"
  display_name :: "'m \<Rightarrow> jsstring"
  molecular_formula :: "'m \<Rightarrow> jsstring"
  iupac_name :: "'m \<Rightarrow> jsstring option"
  detect_groups :: "'m \<Rightarrow> jsstring list"
  describe :: "'m \<Rightarrow> MolecularProperties"
  cyp450_rules :: "jsstring list \<Rightarrow> jsstring list"
  toxicity_rule :: "MolecularProperties \<Rightarrow> jsstring list \<Rightarrow> jsstring"
  embed_attempt :: "nat \<Rightarrow> 'm \<Rightarrow> jsstring option"

text \<open>
  Modelled from the spec: the Analysis Assembler, backend code absent from the sources.
  Sections 4.6 and 7: a conformer failure leaves the structure block empty and the rest of
  the record as computed. The request of section 6 carries the query and nothing else, so
  no caller can ask for the structure to be required.
\<close>

definition assemble :: "'m engine_parts \<Rightarrow> 'm \<Rightarrow> engine_error + jsstring \<Rightarrow> CompoundAnalysis" where
  "assemble E m conformer =
     \<lparr>smiles = canonical_smiles E m,
      name = display_name E m,
      formula = molecular_formula E m,
      iupacName = iupac_name E m,
      functionalGroups = Some (detect_groups E m),
      properties = describe E m,
      drugLikeness = evaluate_rules (describe E m),
      admet = predict_admet (cyp450_rules E) (toxicity_rule E) (describe E m) (detect_groups E m),
      structure3D = (case conformer of Inl e \<Rightarrow> [] | Inr block \<Rightarrow> block)\<rparr>"

text \<open>
  Modelled from the spec: the pipeline from a SMILES string to the response, backend code
  absent from the sources. Sections 2 and 7: structural validation, graph construction,
  then descriptors, rules, ADMET and conformer; a parse or validation error aborts with a
  failure response that carries no data.
\<close>

definition analyze_smiles :: "'m engine_parts \<Rightarrow> jsstring \<Rightarrow> AnalysisResponse" where
  "analyze_smiles E s =
     (case structural_check s of
        Inl e \<Rightarrow> failure (error_message e)
      | Inr u \<Rightarrow>
          (case build_graph E s of
             Inl e \<Rightarrow> failure (error_message e)
           | Inr m \<Rightarrow>
               \<lparr>success = True,
                data = Some (assemble E m (generate_conformer (embed_attempt E) m)),
                error = None\<rparr>))"

text \<open>
  Modelled from the spec: an instance of the open steps of the absent backend, for running
  the pipeline on concrete inputs. The graph is the string itself, the identity and the
  descriptors are those that section 8 of the specification lists for aspirin (the values it
  does not list are typical ones), and every embedding attempt fails.
\<close>

definition aspirin_properties :: MolecularProperties where
  "aspirin_properties =
     \<lparr>molecularWeight = 180.16, logP = 1.31, hbondDonors = 1, hbondAcceptors = 4,
      rotatablebonds = 3, polarSurfaceArea = 63.6, heavyAtomCount = 13, ringCount = 1,
      aromaticRings = 1, heteroAtoms = 4\<rparr>"

text \<open>Modelled from the spec: the instance itself, see above.\<close>

definition sample_parts :: "jsstring engine_parts" where
  "sample_parts =
     \<lparr>build_graph = Inr,
      canonical_smiles = (\<lambda>m. m),
      display_name = (\<lambda>m. js ''aspirin''),
      molecular_formula = (\<lambda>m. js ''C9H8O4''),
      iupac_name = (\<lambda>m. None),
      detect_groups = (\<lambda>m. [js ''carboxyl'', js ''ester'', js ''phenyl'']),
      describe = (\<lambda>m. aspirin_properties),
      cyp450_rules = (\<lambda>groups. []),
      toxicity_rule = (\<lambda>p groups. js ''Low''),
      embed_attempt = (\<lambda>k m. None)\<rparr>"

section \<open>Facts about strings\<close>

lemma ch_values:
  "ch CHR ''('' = 0x28" "ch CHR '')'' = 0x29" "ch CHR ''['' = 0x5B" "ch CHR '']'' = 0x5D"
  "ch CHR ''.'' = 0x2E" "ch CHR ''-'' = 0x2D" "ch CHR ''C'' = 0x43" "ch CHR '' '' = 0x20"
  by (simp_all add: ch_def)

lemma not_whitespace_punct:
  "\<not> is_whitespace (ch CHR ''('')" "\<not> is_whitespace (ch CHR '')'')"
  "\<not> is_whitespace (ch CHR ''['')" "\<not> is_whitespace (ch CHR '']'')"
  "\<not> is_whitespace (ch CHR ''.'')" "\<not> is_whitespace (ch CHR ''-'')"
  "\<not> is_whitespace (ch CHR ''C'')"
  by (simp_all add: ch_values is_whitespace_def)

lemma count_matches_dropWhile:
  "\<not> P c \<Longrightarrow> count_matches c (dropWhile P s) = count_matches c s"
  by (induction s) (auto simp: count_matches_def)

lemma count_matches_rev: "count_matches c (rev s) = count_matches c s"
  by (simp add: count_matches_def flip: rev_filter)

lemma count_matches_trim:
  "\<not> is_whitespace c \<Longrightarrow> count_matches c (trim s) = count_matches c s"
  by (simp add: trim_def count_matches_rev count_matches_dropWhile)

lemma all_dropWhile_iff: "(\<forall>x\<in>set (dropWhile P s). P x) \<longleftrightarrow> (\<forall>x\<in>set s. P x)"
proof
  assume h: "\<forall>x\<in>set (dropWhile P s). P x"
  have "set s = set (takeWhile P s) \<union> set (dropWhile P s)"
    by (metis set_append takeWhile_dropWhile_id)
  with h show "\<forall>x\<in>set s. P x"
    by (auto dest: set_takeWhileD)
next
  assume "\<forall>x\<in>set s. P x"
  then show "\<forall>x\<in>set (dropWhile P s). P x"
    by (auto dest: set_dropWhileD)
qed

lemma trim_empty_iff: "trim s = [] \<longleftrightarrow> list_all is_whitespace s"
  by (simp add: trim_def all_dropWhile_iff list_all_iff)

lemma sublist_dropWhile_iff:
  "\<not> P d \<Longrightarrow> sublist (d # ds) (dropWhile P s) \<longleftrightarrow> sublist (d # ds) s"
  by (induction s) (auto simp: sublist_code)

lemma str_includes_trim:
  assumes "sub \<noteq> []" "\<not> is_whitespace (hd sub)" "\<not> is_whitespace (last sub)"
  shows "str_includes (trim s) sub \<longleftrightarrow> str_includes s sub"
proof -
  obtain d ds where sub: "sub = d # ds" and d: "\<not> is_whitespace d"
    using assms(1,2) by (cases sub) auto
  obtain e es where rsub: "rev sub = e # es" and e: "\<not> is_whitespace e"
    using assms(1,3) by (cases "rev sub") (auto simp: last_rev [symmetric] simp del: last_rev)
  have "sublist sub (trim s) \<longleftrightarrow> sublist (rev sub) (dropWhile is_whitespace (rev (dropWhile is_whitespace s)))"
    unfolding trim_def by (metis sublist_rev rev_rev_ident)
  also have "\<dots> \<longleftrightarrow> sublist (rev sub) (rev (dropWhile is_whitespace s))"
    unfolding rsub using e by (rule sublist_dropWhile_iff)
  also have "\<dots> \<longleftrightarrow> sublist sub (dropWhile is_whitespace s)"
    by (rule sublist_rev)
  also have "\<dots> \<longleftrightarrow> sublist sub s"
    unfolding sub using d by (rule sublist_dropWhile_iff)
  finally show ?thesis by (simp add: str_includes_def)
qed

lemma errors_push_error: "errors (push_error e s d) = errors d @ [e]"
  by (simp add: push_error_def)

lemma errors_push_warning: "errors (push_warning w d) = errors d"
  by (simp add: push_warning_def)

lemma errors_check_parens:
  "errors (check_parens t d) = errors d @
     (if count_matches (ch CHR ''('') t \<noteq> count_matches (ch CHR '')'') t
      then [js ''Unbalanced parentheses''] else [])"
  by (simp add: check_parens_def errors_push_error)

lemma errors_check_brackets:
  "errors (check_brackets t d) = errors d @
     (if count_matches (ch CHR ''['') t \<noteq> count_matches (ch CHR '']'') t
      then [js ''Unbalanced square brackets''] else [])"
  by (simp add: check_brackets_def errors_push_error)

lemma errors_check_atoms:
  "errors (check_atoms t d) = errors d @
     (if \<not> list_ex is_atom_char t then [js ''No recognizable atom symbols found''] else [])"
  by (simp add: check_atoms_def errors_push_error)

lemma errors_check_chars:
  "errors (check_chars t d) = errors d @
     (if \<not> validChars_test t then [js ''Contains invalid characters''] else [])"
  by (simp add: check_chars_def errors_push_error)

lemma errors_check_size: "errors (check_size t d) = errors d"
  by (simp add: check_size_def errors_push_warning Let_def)

lemma errors_check_mistakes:
  "errors (check_mistakes t d) = errors d @
     (if str_includes t (js ''..'') then [js ''Double dots are not valid in SMILES''] else []) @
     (if str_includes t (js ''--'') then [js ''Double dashes are not valid in SMILES''] else [])"
  by (simp add: check_mistakes_def errors_push_error Let_def)

lemma trim_Nil: "trim [] = []"
  by (simp add: trim_def)

lemma blank_iff: "(s = [] \<or> length (trim s) = 0) \<longleftrightarrow> trim s = []"
  by (auto simp: trim_Nil)

lemma errors_validateSMILES:
  "trim s \<noteq> [] \<Longrightarrow> errors (validateSMILES s) =
     (if count_matches (ch CHR ''('') (trim s) \<noteq> count_matches (ch CHR '')'') (trim s)
      then [js ''Unbalanced parentheses''] else []) @
     (if count_matches (ch CHR ''['') (trim s) \<noteq> count_matches (ch CHR '']'') (trim s)
      then [js ''Unbalanced square brackets''] else []) @
     (if \<not> list_ex is_atom_char (trim s) then [js ''No recognizable atom symbols found''] else []) @
     (if \<not> validChars_test (trim s) then [js ''Contains invalid characters''] else []) @
     (if str_includes (trim s) (js ''..'') then [js ''Double dots are not valid in SMILES''] else []) @
     (if str_includes (trim s) (js ''--'') then [js ''Double dashes are not valid in SMILES''] else [])"
  unfolding validateSMILES_def blank_iff Let_def
  by (simp only: if_False diagnostics.simps validation.simps errors_check_mistakes errors_check_size errors_check_chars
      errors_check_atoms errors_check_brackets errors_check_parens append_Nil append_assoc)

lemma validateSMILES_blank:
  "trim s = [] \<Longrightarrow> validateSMILES s =
     \<lparr>errors = [js ''SMILES string is empty''], warnings = [], suggestions = [], isValid = False\<rparr>"
  unfolding validateSMILES_def blank_iff by simp

lemma isValid_validateSMILES: "isValid (validateSMILES s) \<longleftrightarrow> errors (validateSMILES s) = []"
  unfolding validateSMILES_def blank_iff by (simp add: Let_def)

lemma set_trim_subset: "set (trim s) \<subseteq> set s"
  unfolding trim_def by (auto dest!: set_dropWhileD)

lemma message_distinct:
  "js ''Contains invalid characters'' \<noteq> js ''Unbalanced parentheses''"
  "js ''Contains invalid characters'' \<noteq> js ''Unbalanced square brackets''"
  "js ''Contains invalid characters'' \<noteq> js ''No recognizable atom symbols found''"
  "js ''Contains invalid characters'' \<noteq> js ''Double dots are not valid in SMILES''"
  "js ''Contains invalid characters'' \<noteq> js ''Double dashes are not valid in SMILES''"
  "js ''Contains invalid characters'' \<noteq> js ''SMILES string is empty''"
  by (simp_all add: js_def ch_def)

lemma includes_nonblank:
  assumes "str_includes s (d # ds)" "\<not> is_whitespace d"
  shows "trim s \<noteq> []"
proof -
  from assms(1) have "d \<in> set s"
    by (auto simp: str_includes_def sublist_def)
  with assms(2) show ?thesis
    by (auto simp: trim_empty_iff list_all_iff)
qed

lemma dots: "js ''..'' = [ch CHR ''.'', ch CHR ''.'']" "js ''--'' = [ch CHR ''-'', ch CHR ''-'']"
  by (simp_all add: js_def)

lemma includes_dots_trim:
  "str_includes (trim s) (js ''..'') = str_includes s (js ''..'')"
  "str_includes (trim s) (js ''--'') = str_includes s (js ''--'')"
  by (simp_all add: str_includes_trim dots not_whitespace_punct)

section \<open>The validator's verdict\<close>

text \<open>
  Claim C8. For every input string, \<open>validateSMILES\<close> returns \<open>isValid = true\<close> exactly
  when its list of errors is empty. For an empty or whitespace-only input it returns
  \<open>isValid = false\<close> with the single error \<open>SMILES string is empty\<close> and no warnings or
  suggestions. An input that contains two consecutive dots or two consecutive dashes is
  reported invalid, although a string made of alphabet characters only never gets the
  invalid-characters error.
\<close>

theorem validateSMILES_verdict:
  "(isValid (validateSMILES s) \<longleftrightarrow> errors (validateSMILES s) = []) \<and>
   (list_all is_whitespace s \<longrightarrow>
      validateSMILES s =
        \<lparr>errors = [js ''SMILES string is empty''], warnings = [], suggestions = [],
         isValid = False\<rparr>) \<and>
   (str_includes s (js ''..'') \<longrightarrow>
      \<not> isValid (validateSMILES s) \<and>
      js ''Double dots are not valid in SMILES'' \<in> set (errors (validateSMILES s))) \<and>
   (str_includes s (js ''--'') \<longrightarrow>
      \<not> isValid (validateSMILES s) \<and>
      js ''Double dashes are not valid in SMILES'' \<in> set (errors (validateSMILES s))) \<and>
   (list_all is_smiles_char s \<and> s \<noteq> [] \<longrightarrow>
      js ''Contains invalid characters'' \<notin> set (errors (validateSMILES s)))"
proof (intro conjI impI)
  show "isValid (validateSMILES s) \<longleftrightarrow> errors (validateSMILES s) = []"
    by (rule isValid_validateSMILES)
next
  assume "list_all is_whitespace s"
  then show "validateSMILES s =
      \<lparr>errors = [js ''SMILES string is empty''], warnings = [], suggestions = [], isValid = False\<rparr>"
    by (simp add: validateSMILES_blank trim_empty_iff)
next
  assume h: "str_includes s (js ''..'')"
  then have nb: "trim s \<noteq> []"
    unfolding dots by (rule includes_nonblank) (rule not_whitespace_punct)
  from h show "js ''Double dots are not valid in SMILES'' \<in> set (errors (validateSMILES s))"
    by (simp add: errors_validateSMILES [OF nb] includes_dots_trim)
  then show "\<not> isValid (validateSMILES s)"
    by (auto simp: isValid_validateSMILES)
next
  assume h: "str_includes s (js ''--'')"
  then have nb: "trim s \<noteq> []"
    unfolding dots by (rule includes_nonblank) (rule not_whitespace_punct)
  from h show "js ''Double dashes are not valid in SMILES'' \<in> set (errors (validateSMILES s))"
    by (simp add: errors_validateSMILES [OF nb] includes_dots_trim)
  then show "\<not> isValid (validateSMILES s)"
    by (auto simp: isValid_validateSMILES)
next
  assume h: "list_all is_smiles_char s \<and> s \<noteq> []"
  show "js ''Contains invalid characters'' \<notin> set (errors (validateSMILES s))"
  proof (cases "trim s = []")
    case True
    then show ?thesis
      by (simp add: validateSMILES_blank message_distinct)
  next
    case False
    from h have "list_all is_smiles_char (trim s)"
      using set_trim_subset [of s] by (auto simp: list_all_iff)
    with False have "validChars_test (trim s)"
      by (simp add: validChars_test_def)
    with False show ?thesis
      by (simp add: errors_validateSMILES message_distinct)
  qed
qed

theorem validateSMILES_verdict_witness:
  "list_all is_whitespace (js ''  '') \<and>
   validateSMILES (js ''  '') =
     \<lparr>errors = [js ''SMILES string is empty''], warnings = [], suggestions = [],
      isValid = False\<rparr> \<and>
   str_includes (js ''C..C'') (js ''..'') \<and> list_all is_smiles_char (js ''C..C'') \<and>
   \<not> isValid (validateSMILES (js ''C..C'')) \<and>
   js ''Contains invalid characters'' \<notin> set (errors (validateSMILES (js ''C..C''))) \<and>
   str_includes (js ''C--C'') (js ''--'') \<and> \<not> isValid (validateSMILES (js ''C--C''))"
proof -
  have blank: "list_all is_whitespace (js ''  '')"
    by (simp add: js_def ch_def is_whitespace_def)
  have dots: "str_includes (js ''C..C'') (js ''..'')"
    by (simp add: js_def str_includes_def sublist_code)
  have dashes: "str_includes (js ''C--C'') (js ''--'')"
    by (simp add: js_def str_includes_def sublist_code)
  have alphabet: "list_all is_smiles_char (js ''C..C'') \<and> js ''C..C'' \<noteq> []"
    by (simp add: js_def ch_def is_smiles_char_def)
  show ?thesis
    using validateSMILES_verdict [of "js ''  ''"] validateSMILES_verdict [of "js ''C..C''"]
      validateSMILES_verdict [of "js ''C--C''"] blank dots dashes alphabet
    by blast
qed

section \<open>Unbalanced brackets\<close>

lemma count_matches_blank:
  assumes "list_all is_whitespace s" "\<not> is_whitespace c"
  shows "count_matches c s = 0"
proof -
  from assms have "c \<notin> set s"
    by (auto simp: list_all_iff)
  then show ?thesis
    by (auto simp: count_matches_def filter_empty_conv)
qed

lemma unbalanced_nonblank:
  assumes "count_matches c s \<noteq> count_matches c' s" "\<not> is_whitespace c" "\<not> is_whitespace c'"
  shows "trim s \<noteq> []"
proof
  assume "trim s = []"
  then have "list_all is_whitespace s"
    by (simp add: trim_empty_iff)
  then have "count_matches c s = 0" "count_matches c' s = 0"
    using assms(2,3) by (simp_all add: count_matches_blank)
  with assms(1) show False by simp
qed

lemma failure_fields:
  "success (failure msg) = False" "data (failure msg) = None" "error (failure msg) = Some msg"
  by (simp_all add: failure_def)

text \<open>
  Claim C1. For every input in which the number of opening and closing round brackets
  differs, or that of the square brackets, validation fails with an error that names the
  imbalance; the response of the engine is a failure, \<open>success: false\<close>, with such a
  message and without any data. The input \<open>C(((\<close> is rejected in this way. The verdict is
  that of \<open>validateSMILES\<close>; the response is that of the engine as modelled from the
  specification, for any choice of its open steps.
\<close>

theorem unbalanced_rejected:
  assumes "count_matches (ch CHR ''('') s \<noteq> count_matches (ch CHR '')'') s \<or>
           count_matches (ch CHR ''['') s \<noteq> count_matches (ch CHR '']'') s"
  shows "\<not> isValid (validateSMILES s) \<and>
         (count_matches (ch CHR ''('') s \<noteq> count_matches (ch CHR '')'') s \<longrightarrow>
            js ''Unbalanced parentheses'' \<in> set (errors (validateSMILES s))) \<and>
         (count_matches (ch CHR ''['') s \<noteq> count_matches (ch CHR '']'') s \<longrightarrow>
            js ''Unbalanced square brackets'' \<in> set (errors (validateSMILES s))) \<and>
         success (analyze_smiles E s) = False \<and> data (analyze_smiles E s) = None \<and>
         (error (analyze_smiles E s) = Some (js ''Unbalanced parentheses'') \<or>
          error (analyze_smiles E s) = Some (js ''Unbalanced square brackets''))"
proof -
  have nb: "trim s \<noteq> []"
    using assms unbalanced_nonblank not_whitespace_punct(1-4) by blast
  have parens: "js ''Unbalanced parentheses'' \<in> set (errors (validateSMILES s))"
    if "count_matches (ch CHR ''('') s \<noteq> count_matches (ch CHR '')'') s"
    using that by (simp add: errors_validateSMILES [OF nb] count_matches_trim not_whitespace_punct)
  have brackets: "js ''Unbalanced square brackets'' \<in> set (errors (validateSMILES s))"
    if "count_matches (ch CHR ''['') s \<noteq> count_matches (ch CHR '']'') s"
    using that by (simp add: errors_validateSMILES [OF nb] count_matches_trim not_whitespace_punct)
  have invalid: "\<not> isValid (validateSMILES s)"
    using assms parens brackets by (auto simp: isValid_validateSMILES)
  have engine: "analyze_smiles E s = failure (js ''Unbalanced parentheses'') \<or>
                analyze_smiles E s = failure (js ''Unbalanced square brackets'')"
    using assms by (auto simp: analyze_smiles_def structural_check_def)
  then have "success (analyze_smiles E s) = False \<and> data (analyze_smiles E s) = None \<and>
         (error (analyze_smiles E s) = Some (js ''Unbalanced parentheses'') \<or>
          error (analyze_smiles E s) = Some (js ''Unbalanced square brackets''))"
    by (auto simp: failure_fields)
  with invalid parens brackets show ?thesis by blast
qed

theorem unbalanced_rejected_witness:
  "count_matches (ch CHR ''('') (js ''C((('') \<noteq> count_matches (ch CHR '')'') (js ''C((('') \<and>
   \<not> isValid (validateSMILES (js ''C((('')) \<and>
   js ''Unbalanced parentheses'' \<in> set (errors (validateSMILES (js ''C((('')))  \<and>
   success (analyze_smiles sample_parts (js ''C((('')) = False \<and>
   data (analyze_smiles sample_parts (js ''C((('')) = None"
proof -
  have h: "count_matches (ch CHR ''('') (js ''C((('') \<noteq> count_matches (ch CHR '')'') (js ''C((('')"
    by (simp add: count_matches_def js_def ch_def)
  show ?thesis
    using unbalanced_rejected [of "js ''C(((''" sample_parts] h by blast
qed

section \<open>The character-set check\<close>

text \<open>
  Claim C4 as stated fails: the validator checks the trimmed string, so a string that ends
  in a tab, which is outside the alphabet, passes without any error. The input form hands
  such a string to the validator, since \<open>isSMILESLike\<close> accepts it.
\<close>

theorem invalid_characters_counterexample:
  "0x09 \<in> set (js ''CCO'' @ [0x09]) \<and> \<not> is_smiles_char 0x09 \<and>
   isSMILESLike (js ''CCO'' @ [0x09]) \<and>
   isValid (validateSMILES (js ''CCO'' @ [0x09])) \<and>
   errors (validateSMILES (js ''CCO'' @ [0x09])) = []"
proof -
  have t: "trim (js ''CCO'' @ [0x09]) = js ''CCO''"
    by (simp add: trim_def js_def ch_def is_whitespace_def)
  have nb: "trim (js ''CCO'' @ [0x09]) \<noteq> []"
    unfolding t by (simp add: js_def)
  have e: "errors (validateSMILES (js ''CCO'' @ [0x09])) = []"
    unfolding errors_validateSMILES [OF nb] t
    by (simp add: js_def ch_def count_matches_def is_atom_char_def validChars_test_def
          is_smiles_char_def str_includes_def sublist_code)
  have "\<not> is_smiles_char 0x09"
    by (simp add: is_smiles_char_def ch_def)
  moreover have "isSMILESLike (js ''CCO'' @ [0x09])"
    unfolding isSMILESLike_def t
    by (simp add: js_def ch_def validChars_test_def is_smiles_char_def str_includes_def
          sublist_code)
  ultimately show ?thesis
    using e by (simp add: isValid_validateSMILES)
qed

text \<open>
  Claim C4, amended. For every input, the invalid-characters error is reported exactly when
  the string without its leading and trailing white space contains a character outside the
  alphabet, and then validation fails; a string whose trimmed form consists of alphabet
  characters only passes the character-set check.
\<close>

theorem invalid_characters_after_trim:
  "(js ''Contains invalid characters'' \<in> set (errors (validateSMILES s)) \<longleftrightarrow>
      \<not> list_all is_smiles_char (trim s)) \<and>
   (\<not> list_all is_smiles_char (trim s) \<longrightarrow> \<not> isValid (validateSMILES s))"
proof -
  have iff: "js ''Contains invalid characters'' \<in> set (errors (validateSMILES s)) \<longleftrightarrow>
      \<not> list_all is_smiles_char (trim s)"
  proof (cases "trim s = []")
    case True
    then show ?thesis
      by (simp add: validateSMILES_blank message_distinct)
  next
    case False
    then show ?thesis
      by (simp add: errors_validateSMILES message_distinct validChars_test_def)
  qed
  then have "\<not> isValid (validateSMILES s)" if "\<not> list_all is_smiles_char (trim s)"
    using that by (auto simp: isValid_validateSMILES)
  with iff show ?thesis by blast
qed

theorem invalid_characters_after_trim_witness:
  "\<not> list_all is_smiles_char (trim (js ''C C'')) \<and>
   js ''Contains invalid characters'' \<in> set (errors (validateSMILES (js ''C C''))) \<and>
   \<not> isValid (validateSMILES (js ''C C''))"
proof -
  have "\<not> list_all is_smiles_char (trim (js ''C C''))"
    by (simp add: trim_def js_def ch_def is_whitespace_def is_smiles_char_def)
  then show ?thesis
    using invalid_characters_after_trim [of "js ''C C''"] by blast
qed

section \<open>The SMILES heuristic\<close>

lemma str_includes_single: "str_includes s [c] \<longleftrightarrow> c \<in> set s"
  by (induction s) (auto simp: str_includes_def sublist_code)

lemma mem_trim_iff: "\<not> is_whitespace c \<Longrightarrow> c \<in> set (trim s) \<longleftrightarrow> c \<in> set s"
  using str_includes_trim [of "[c]" s] by (simp add: str_includes_single)

lemma js_single: "js [c] = [ch c]"
  by (simp add: js_def)

lemma isSMILESLike_unfold:
  "isSMILESLike text \<longleftrightarrow>
     list_all is_smiles_char (trim text) \<and> ch CHR ''C'' \<in> set (trim text) \<and>
     ch CHR '' '' \<notin> set text \<and> length text > 3"
proof -
  have "ch CHR ''C'' \<in> set (trim text) \<Longrightarrow> trim text \<noteq> []"
    by auto
  then show ?thesis
    unfolding isSMILESLike_def validChars_test_def js_single str_includes_single
    by (auto simp: mem_trim_iff not_whitespace_punct)
qed

lemma isSMILESLike_trimmed:
  "trim text = text \<Longrightarrow>
   isSMILESLike text \<longleftrightarrow>
     list_all is_smiles_char text \<and> ch CHR ''C'' \<in> set text \<and> ch CHR '' '' \<notin> set text \<and>
     length text > 3"
  by (simp add: isSMILESLike_unfold)

lemma isSMILESLike_aromatic_refused: "\<not> isSMILESLike (js ''c1ccccc1'')"
  unfolding isSMILESLike_unfold by (simp add: js_def ch_def trim_def is_whitespace_def)

text \<open>
  Claim C3, at its failing inputs. The claim reads the whole heuristic on the
  whitespace-stripped text; \<open>isSMILESLike\<close> strips the text for the pattern test only and
  measures the length and looks for a space in the raw text. Four carbons after a leading
  space: the stripped text has only alphabet characters, contains \<open>C\<close>, has no space and
  has length 4, yet the text is refused. Three carbons and a tab: the stripped text has
  length 3, yet the text is accepted.
\<close>

theorem isSMILESLike_failing_inputs:
  "trim (js '' CCCC'') = js ''CCCC'' \<and> list_all is_smiles_char (js ''CCCC'') \<and>
   ch CHR ''C'' \<in> set (js ''CCCC'') \<and> ch CHR '' '' \<notin> set (js ''CCCC'') \<and>
   length (js ''CCCC'') > 3 \<and> \<not> isSMILESLike (js '' CCCC'') \<and>
   trim (js ''CCC'' @ [0x09]) = js ''CCC'' \<and> \<not> length (js ''CCC'') > 3 \<and>
   isSMILESLike (js ''CCC'' @ [0x09])"
proof -
  have t1: "trim (js ''CCC'' @ [0x09]) = js ''CCC''"
    by (simp add: trim_def js_def ch_def is_whitespace_def)
  have t2: "trim (js '' CCCC'') = js ''CCCC''"
    by (simp add: trim_def js_def ch_def is_whitespace_def)
  show ?thesis
    unfolding isSMILESLike_unfold t1 t2
    by (simp add: js_def ch_def is_smiles_char_def)
qed

section \<open>Formula formatting\<close>

lemma is_digit_cases:
  "is_digit c \<longleftrightarrow>
     c = ch CHR ''0'' \<or> c = ch CHR ''1'' \<or> c = ch CHR ''2'' \<or> c = ch CHR ''3'' \<or>
     c = ch CHR ''4'' \<or> c = ch CHR ''5'' \<or> c = ch CHR ''6'' \<or> c = ch CHR ''7'' \<or>
     c = ch CHR ''8'' \<or> c = ch CHR ''9''"
proof -
  have "48 \<le> unat c \<and> unat c \<le> 57 \<longleftrightarrow>
        unat c = 48 \<or> unat c = 49 \<or> unat c = 50 \<or> unat c = 51 \<or> unat c = 52 \<or>
        unat c = 53 \<or> unat c = 54 \<or> unat c = 55 \<or> unat c = 56 \<or> unat c = 57"
    by arith
  then show ?thesis
    by (simp add: is_digit_def ch_def word_le_nat_alt word_unat_eq_iff)
qed

lemma subscriptMap_digit: "is_digit c \<Longrightarrow> subscriptMap [c] = Some [subscript_of c]"
  unfolding is_digit_cases
  by (elim disjE) (simp_all add: subscriptMap_def subscript_of_def js_def ch_def)

lemma subscript_callback_digits:
  "list_all is_digit match \<Longrightarrow> subscript_callback match = map subscript_of match"
  by (induction match)
     (simp_all add: subscript_callback_def split_chars_def subscriptMap_digit js_or_def)

lemma subscript_of_other: "\<not> is_digit c \<Longrightarrow> subscript_of c = c"
  by (simp add: is_digit_cases subscript_of_def)

lemma replace_digit_runs_map:
  "replace_digit_runs subscript_callback s = map subscript_of s"
proof (induction subscript_callback s rule: replace_digit_runs.induct)
  case 1
  show ?case by simp
next
  case (2 c cs)
  show ?case
  proof (cases "is_digit c")
    case True
    then have run: "list_all is_digit (c # takeWhile is_digit cs)"
      by (auto simp: list_all_iff dest: set_takeWhileD)
    have "map subscript_of (c # cs) =
          map subscript_of (c # takeWhile is_digit cs) @ map subscript_of (dropWhile is_digit cs)"
      by (simp flip: map_append)
    with True 2(1) run show ?thesis
      by (simp add: subscript_callback_digits del: map_append)
  next
    case False
    with 2(2) show ?thesis
      by (simp add: subscript_of_other)
  qed
qed

lemma subscript_not_digit: "\<not> is_digit (subscript_of c)"
  unfolding is_digit_cases subscript_of_def
  by (simp add: ch_def)

lemma subscript_of_idem: "subscript_of (subscript_of c) = subscript_of c"
  by (simp add: subscript_of_other subscript_not_digit)

text \<open>
  Claim C10. \<open>formatMolecularFormula\<close> maps every ASCII digit to the corresponding
  subscript digit and leaves every other code unit as it is; a subscript digit is not a
  digit for the pattern, so formatting twice is formatting once.
\<close>

theorem formatMolecularFormula_subscripts:
  "formatMolecularFormula s = map subscript_of s \<and>
   formatMolecularFormula (formatMolecularFormula s) = formatMolecularFormula s"
  by (simp add: formatMolecularFormula_def replace_digit_runs_map subscript_of_idem)

lemma formatMolecularFormula_aspirin:
  "formatMolecularFormula (js ''C9H8O4'') = [0x43, 0x2089, 0x48, 0x2088, 0x4F, 0x2084]"
  by (simp add: formatMolecularFormula_def js_def ch_def is_digit_def subscript_callback_def split_chars_def
     subscriptMap_def js_or_def)

section \<open>The API client\<close>

text \<open>
  Claim C7. \<open>healthCheck\<close> always returns a boolean and never throws: it is true exactly
  when the request resolves with status 200, and false in every other case, in particular
  whenever the request throws (a timeout, a connection error, a status that axios rejects).
\<close>

theorem healthCheck_boolean:
  "(\<exists>b. healthCheck get = Inr b) \<and>
   (healthCheck get = Inr True \<longleftrightarrow> (\<exists>resp. get = Inr resp \<and> response_status resp = 200)) \<and>
   healthCheck (Inl e) = Inr False"
  by (cases get) (auto simp: healthCheck_def try_catch_def)









lemma analyzeCompound_examples:
  "analyzeCompound (\<lambda>request. Inl (AxiosError (Some (js ''ECONNABORTED'')) None))
     (js ''aspirin'') =
     Inr (failure_object (JString
       (js ''Analysis timeout - the compound may be too complex to process quickly'')))"
  "analyzeCompound (replies_500_with (JObject [(js ''error'', JString [])])) (js ''aspirin'') =
     Inr (failure_object (JString (js ''Server error during analysis'')))"
  "analyzeCompound (replies_500_with (JObject [(js ''error'', JString (js ''boom''))]))
     (js ''aspirin'') =
     Inr (failure_object (JString (js ''boom'')))"
  "analyzeCompound (\<lambda>request. Inl OtherError) (js ''aspirin'') =
     Inr (failure_object (JString (js ''Failed to analyze compound. Please try again.'')))"
  by (simp_all add: analyzeCompound_def try_catch_def analyze_catch_def replies_500_with_def
      value_or_def truthy_def optional_member_def js_def ch_def)

section \<open>Rules and ADMET categories\<close>

lemma lipinski_count_filter:
  "lipinski_count p =
     length (filter (\<lambda>holds. holds)
       [molecularWeight p > 500, logP p > 5, hbondDonors p > 5, hbondAcceptors p > 10])"
  by (simp add: lipinski_count_def)

text \<open>
  Claim C2. For every value of the molecular properties, the Lipinski violation count is
  the number of the four conditions that hold (MW > 500, logP > 5, donors > 5,
  acceptors > 10), and the drug-likeness flag, also the one in the assembled record, is
  true exactly when that count is at most 1.
\<close>

theorem lipinski_drug_likeness:
  "lipinskiViolations (evaluate_rules p) =
     length (filter (\<lambda>holds. holds)
       [molecularWeight p > 500, logP p > 5, hbondDonors p > 5, hbondAcceptors p > 10]) \<and>
   (DrugLikenessAssessment.drugLikeness (evaluate_rules p) \<longleftrightarrow>
      lipinskiViolations (evaluate_rules p) \<le> 1) \<and>
   (DrugLikenessAssessment.drugLikeness (drugLikeness (assemble E m c)) \<longleftrightarrow>
      lipinskiViolations (drugLikeness (assemble E m c)) \<le> 1)"
  by (simp add: evaluate_rules_def assemble_def lipinski_count_filter)

lemma likely_unlikely: "js ''Likely'' \<noteq> js ''Unlikely''"
  by (simp add: js_def ch_def)

text \<open>
  Claim C5. For every value of the molecular properties, the blood-brain-barrier category
  is \<open>Likely\<close> exactly when MW < 450, polar surface area < 90 and -0.5 \<le> logP \<le> 4.5, and
  \<open>Unlikely\<close> in every other case.
\<close>

theorem blood_brain_barrier_two_valued:
  "(bloodBrainBarrier (predict_admet cyp tox p groups) = js ''Likely'' \<longleftrightarrow>
      molecularWeight p < 450 \<and> polarSurfaceArea p < 90 \<and> -0.5 \<le> logP p \<and> logP p \<le> 4.5) \<and>
   (bloodBrainBarrier (predict_admet cyp tox p groups) = js ''Unlikely'' \<longleftrightarrow>
      \<not> (molecularWeight p < 450 \<and> polarSurfaceArea p < 90 \<and> -0.5 \<le> logP p \<and> logP p \<le> 4.5))"
  using likely_unlikely by (auto simp: predict_admet_def blood_brain_barrier_def)

section \<open>Conformer failure\<close>

text \<open>
  Claim C6. For a valid molecule on which both embedding attempts fail, the engine still
  answers with \<open>success: true\<close>: the properties, the drug-likeness assessment and the ADMET
  prediction are those computed from the molecule, and the structure block is the empty
  string. The client takes the response as an analysis, not as an error, and the viewer
  shows its placeholder.
\<close>

theorem conformer_failure_recovered:
  assumes "structural_check s = Inr ()" "build_graph E s = Inr m"
    and "embed_attempt E 0 m = None" "embed_attempt E 1 m = None"
  shows "\<exists>d. analyze_smiles E s = \<lparr>success = True, data = Some d, error = None\<rparr> \<and>
           structure3D d = [] \<and>
           properties d = describe E m \<and>
           drugLikeness d = evaluate_rules (describe E m) \<and>
           admet d = predict_admet (cyp450_rules E) (toxicity_rule E) (describe E m)
                       (detect_groups E m) \<and>
           handleAnalyze (analyze_smiles E s) = \<lparr>analysis = Some d, shown_error = None\<rparr> \<and>
           shows_placeholder (structure3D d)"
proof -
  from assms(3,4) have "generate_conformer (embed_attempt E) m = Inl ConformerGenerationError"
    by (simp add: generate_conformer_def)
  with assms(1,2) have
    "analyze_smiles E s =
       \<lparr>success = True, data = Some (assemble E m (Inl ConformerGenerationError)), error = None\<rparr>"
    by (simp add: analyze_smiles_def)
  then show ?thesis
    by (simp add: assemble_def handleAnalyze_def shows_placeholder_def)
qed

theorem conformer_failure_recovered_witness:
  "structural_check (js ''CC(=O)OC1=CC=CC=C1C(=O)O'') = Inr () \<and>
   build_graph sample_parts (js ''CC(=O)OC1=CC=CC=C1C(=O)O'') = Inr (js ''CC(=O)OC1=CC=CC=C1C(=O)O'') \<and>
   embed_attempt sample_parts 0 (js ''CC(=O)OC1=CC=CC=C1C(=O)O'') = None \<and>
   embed_attempt sample_parts 1 (js ''CC(=O)OC1=CC=CC=C1C(=O)O'') = None \<and>
   (\<exists>d. analyze_smiles sample_parts (js ''CC(=O)OC1=CC=CC=C1C(=O)O'') =
          \<lparr>success = True, data = Some d, error = None\<rparr> \<and>
        structure3D d = [] \<and> properties d = aspirin_properties \<and>
        lipinskiViolations (drugLikeness d) = 0 \<and>
        bloodBrainBarrier (admet d) = js ''Likely'')"
proof -
  have a: "structural_check (js ''CC(=O)OC1=CC=CC=C1C(=O)O'') = Inr ()"
    by (simp add: structural_check_def count_matches_def js_def ch_def is_smiles_char_def)
  have b: "build_graph sample_parts (js ''CC(=O)OC1=CC=CC=C1C(=O)O'') =
           Inr (js ''CC(=O)OC1=CC=CC=C1C(=O)O'')"
    and c: "embed_attempt sample_parts 0 (js ''CC(=O)OC1=CC=CC=C1C(=O)O'') = None"
    and d: "embed_attempt sample_parts 1 (js ''CC(=O)OC1=CC=CC=C1C(=O)O'') = None"
    by (simp_all add: sample_parts_def)
  have e: "describe sample_parts m = aspirin_properties" for m
    by (simp add: sample_parts_def)
  have f: "lipinskiViolations (evaluate_rules aspirin_properties) = 0"
    by (simp add: evaluate_rules_def lipinski_count_def aspirin_properties_def)
  have g: "bloodBrainBarrier (predict_admet cyp tox aspirin_properties groups) = js ''Likely''"
    for cyp tox groups
    by (simp add: predict_admet_def blood_brain_barrier_def aspirin_properties_def)
  from conformer_failure_recovered [OF a b c d] a b c d show ?thesis
    by (auto simp: e f g)
qed

end
